theory Spec2Isabelle
  imports Complex_Main "HOL-Library.Sublist"
begin

section \<open>Python values and the primitives the two programs use\<close>

text \<open>
  The methods of both programs take arguments annotated \<^verbatim>\<open>Any\<close> or
  \<^verbatim>\<open>List[Any]\<close>, and Python checks neither. A value is therefore one of
  the built-in objects the programs are run on: \<^verbatim>\<open>None\<close>, a bool, an int
  (unbounded), a float, a str or a list.

  A float the programs are given is a finite double, modelled by the rational number it
  denotes; Python orders it against an int by that exact value. Infinities and NaN as
  inputs are left out.
  A str is a \<^typ>\<open>string\<close>.
\<close>

datatype pyval =
    PNone
  | PBool bool
  | PInt int
  | PFloat rat
  | PStr string
  | PList "pyval list"

datatype error = TypeError | AttributeError | ZeroDivisionError | OverflowError | ValueError

text \<open>\<^verbatim>\<open>len(x)\<close>: defined on str and list, a \<^verbatim>\<open>TypeError\<close> otherwise.\<close>

fun py_len :: "pyval \<Rightarrow> error + nat" where
  "py_len (PStr s) = Inr (length s)"
| "py_len (PList xs) = Inr (length xs)"
| "py_len PNone = Inl TypeError"
| "py_len (PBool b) = Inl TypeError"
| "py_len (PInt i) = Inl TypeError"
| "py_len (PFloat r) = Inl TypeError"

text \<open>
  \<^verbatim>\<open>for x in data\<close>: a list yields its items, a str its characters (each a str
  of length one), anything else is not iterable.
\<close>

fun py_iter :: "pyval \<Rightarrow> error + pyval list" where
  "py_iter (PStr s) = Inr (map (\<lambda>c. PStr [c]) s)"
| "py_iter (PList xs) = Inr xs"
| "py_iter PNone = Inl TypeError"
| "py_iter (PBool b) = Inl TypeError"
| "py_iter (PInt i) = Inl TypeError"
| "py_iter (PFloat r) = Inl TypeError"

text \<open>
  The numeric view of a value: bool is a subclass of int (\<^verbatim>\<open>True\<close> is 1), ints
  and floats are themselves, nothing else is a number.
\<close>

datatype num = NInt int | NFloat rat

fun as_num :: "pyval \<Rightarrow> num option" where
  "as_num (PBool b) = Some (NInt (if b then 1 else 0))"
| "as_num (PInt i) = Some (NInt i)"
| "as_num (PFloat r) = Some (NFloat r)"
| "as_num PNone = None"
| "as_num (PStr s) = None"
| "as_num (PList xs) = None"

text \<open>
  What the programs compute with floats is never compared or branched on: a sum or an
  average only goes into an f-string. The model therefore does not evaluate float
  arithmetic. A computed float is kept as the expression that produced it: the floats and
  ints that went in, and the operations in their order. Which double that is depends on
  the rounding of each step, on overflow to \<^verbatim>\<open>inf\<close>, and (from CPython 3.12, where
  \<^verbatim>\<open>sum\<close> carries a compensation term) on the interpreter; the expression fixes
  none of it. \<open>exact\<close> is the value the expression has in exact arithmetic. That is
  not the double the program holds, which is the same computation carried out in floating
  point: there \<^verbatim>\<open>0.1 + 0.2 + 0.3\<close> is not \<^verbatim>\<open>0.6\<close>, \<^verbatim>\<open>4 / 3\<close> is
  the double nearest to it, and \<^verbatim>\<open>1.7e308 + 1.7e308\<close> is \<^verbatim>\<open>inf\<close>.
\<close>

datatype fexpr =
    FConst rat
  | FOfInt int
  | FAdd fexpr fexpr
  | FDiv fexpr fexpr
  | FIntDiv int int

fun exact :: "fexpr \<Rightarrow> rat" where
  "exact (FConst r) = r"
| "exact (FOfInt i) = of_int i"
| "exact (FAdd x y) = exact x + exact y"
| "exact (FDiv x y) = exact x / exact y"
| "exact (FIntDiv i j) = of_int i / of_int j"

text \<open>A number the program has computed: an int, exact, or a float.\<close>

datatype cnum = CInt int | CFloat fexpr

text \<open>
  What float arithmetic does to control flow is kept. The largest double is
  \<open>2 ^ 1024 - 2 ^ 971\<close>; a magnitude of at least \<open>2 ^ 1024 - 2 ^ 970\<close> rounds (to
  nearest, ties to even) to \<open>2 ^ 1024\<close>, which no double holds. Converting such an
  int to a float, and dividing two ints with such a quotient, raises
  \<^verbatim>\<open>OverflowError\<close>. Adding and dividing floats never raises for overflow.
\<close>

definition float_overflows :: "rat \<Rightarrow> bool" where
  "float_overflows q = (2 ^ 1024 - 2 ^ 970 \<le> \<bar>q\<bar>)"

definition int_to_float :: "int \<Rightarrow> error + fexpr" where
  "int_to_float i =
     (if float_overflows (of_int i) then Inl OverflowError else Inr (FOfInt i))"

text \<open>
  \<^verbatim>\<open>acc + item\<close> inside \<^verbatim>\<open>sum\<close>, whose running total \<^verbatim>\<open>acc\<close> starts
  at the int 0 and so is always a number. Two ints add exactly; an int next to a float is
  converted first; an item that is not a number is a \<^verbatim>\<open>TypeError\<close>.
\<close>

fun num_add :: "cnum \<Rightarrow> num \<Rightarrow> error + cnum" where
  "num_add (CInt a) (NInt j) = Inr (CInt (a + j))"
| "num_add (CInt a) (NFloat y) =
     (case int_to_float a of Inl e \<Rightarrow> Inl e | Inr x \<Rightarrow> Inr (CFloat (FAdd x (FConst y))))"
| "num_add (CFloat x) (NInt j) =
     (case int_to_float j of Inl e \<Rightarrow> Inl e | Inr y \<Rightarrow> Inr (CFloat (FAdd x y)))"
| "num_add (CFloat x) (NFloat y) = Inr (CFloat (FAdd x (FConst y)))"

definition py_add :: "cnum \<Rightarrow> pyval \<Rightarrow> error + cnum" where
  "py_add acc item =
     (case as_num item of None \<Rightarrow> Inl TypeError | Some y \<Rightarrow> num_add acc y)"

text \<open>
  \<^verbatim>\<open>sum(data)\<close>: the items are added from the left onto the start value 0; the
  first addition that raises ends the call.
\<close>

fun sum_from :: "cnum \<Rightarrow> pyval list \<Rightarrow> error + cnum" where
  "sum_from acc [] = Inr acc"
| "sum_from acc (x # xs) =
     (case py_add acc x of Inl e \<Rightarrow> Inl e | Inr acc' \<Rightarrow> sum_from acc' xs)"

definition py_sum :: "pyval \<Rightarrow> error + cnum" where
  "py_sum data = (case py_iter data of Inl e \<Rightarrow> Inl e | Inr xs \<Rightarrow> sum_from (CInt 0) xs)"

text \<open>
  \<^verbatim>\<open>s / n\<close>, true division of a computed number by an int (the source divides by
  \<^verbatim>\<open>len(data)\<close> only). Between two ints the zero divisor is checked first and the
  quotient must fit a float; under a float the int is converted first and the zero divisor
  is checked after.
\<close>

fun py_truediv :: "cnum \<Rightarrow> int \<Rightarrow> error + fexpr" where
  "py_truediv (CInt i) j =
     (if j = 0 then Inl ZeroDivisionError
      else if float_overflows (of_int i / of_int j) then Inl OverflowError
      else Inr (FIntDiv i j))"
| "py_truediv (CFloat x) j =
     (case int_to_float j of
        Inl e \<Rightarrow> Inl e
      | Inr y \<Rightarrow> if j = 0 then Inl ZeroDivisionError else Inr (FDiv x y))"

text \<open>
  An f-string is kept as the list of its parts: the literal text, and for each replacement
  field the value that is formatted together with its format (\<^verbatim>\<open>{x}\<close> of a value
  or of a computed float, \<^verbatim>\<open>{x:.2f}\<close> of a computed float, or an exception in
  \<^verbatim>\<open>{e}\<close>). Two results are equal when they have the same text around the same
  values; the decimal digits Python prints for a number are not modelled.
\<close>

datatype frag = Lit string | Fmt pyval | FmtFloat fexpr | Fmt2f fexpr | FmtErr error

type_synonym fstring = "frag list"

text \<open>
  Formatting a computed number in a replacement field \<^verbatim>\<open>{x}\<close>. From CPython 3.11
  the conversion of an int to decimal text raises \<^verbatim>\<open>ValueError\<close> when the int has
  more than 4300 digits (the default of \<^verbatim>\<open>sys.set_int_max_str_digits\<close>), that is
  from \<open>10 ^ 4300\<close> on; a float always formats. The result of \<^verbatim>\<open>len\<close> is at most
  \<^verbatim>\<open>sys.maxsize\<close>, of 19 digits, so formatting a length cannot raise and is
  written as the part \<open>Fmt (PInt n)\<close> directly.
\<close>

definition max_str_digits :: nat where
  "max_str_digits = 4300"

definition int_too_long :: "int \<Rightarrow> bool" where
  "int_too_long i = (10 ^ max_str_digits \<le> \<bar>i\<bar>)"

fun number_frag :: "cnum \<Rightarrow> frag" where
  "number_frag (CInt i) = Fmt (PInt i)"
| "number_frag (CFloat x) = FmtFloat x"

fun format_number :: "cnum \<Rightarrow> error + frag" where
  "format_number (CInt i) = (if int_too_long i then Inl ValueError else Inr (Fmt (PInt i)))"
| "format_number (CFloat x) = Inr (FmtFloat x)"

text \<open>
  An ordering comparison whose right operand is an int literal, as every comparison of the
  source is (\<^verbatim>\<open>data > 30\<close>, \<^verbatim>\<open>data <= 30\<close>, \<^verbatim>\<open>data >= 0\<close>,
  \<^verbatim>\<open>data < 0\<close>). Python compares an int and a float by their exact values; a
  value that is not a number does not order against an int.
\<close>

fun num_val :: "num \<Rightarrow> rat" where
  "num_val (NInt i) = of_int i"
| "num_val (NFloat r) = r"

definition py_cmp_int :: "(rat \<Rightarrow> rat \<Rightarrow> bool) \<Rightarrow> pyval \<Rightarrow> int \<Rightarrow> error + bool" where
  "py_cmp_int rel a k =
     (case as_num a of None \<Rightarrow> Inl TypeError | Some x \<Rightarrow> Inr (rel (num_val x) (of_int k)))"

text \<open>\<^verbatim>\<open>sub in t\<close> on two strs: \<^verbatim>\<open>sub\<close> occurs in \<^verbatim>\<open>t\<close>.\<close>

fun str_contains :: "string \<Rightarrow> string \<Rightarrow> bool" where
  "str_contains sub [] = (sub = [])"
| "str_contains sub (c # cs) = (prefix sub (c # cs) \<or> str_contains sub cs)"

text \<open>
  \<^verbatim>\<open>sub in data\<close> for a str \<^verbatim>\<open>sub\<close>: the substring test on a str,
  membership (by \<^verbatim>\<open>==\<close>) in a list, and a \<^verbatim>\<open>TypeError\<close> on a value
  that is not a container.
\<close>

fun py_in :: "string \<Rightarrow> pyval \<Rightarrow> error + bool" where
  "py_in sub (PStr t) = Inr (str_contains sub t)"
| "py_in sub (PList xs) = Inr (PStr sub \<in> set xs)"
| "py_in sub PNone = Inl TypeError"
| "py_in sub (PBool b) = Inl TypeError"
| "py_in sub (PInt i) = Inl TypeError"
| "py_in sub (PFloat r) = Inl TypeError"

text \<open>\<^verbatim>\<open>t.find(sub)\<close> on a str: the lowest index where \<^verbatim>\<open>sub\<close> starts, or -1.\<close>

fun str_find :: "string \<Rightarrow> string \<Rightarrow> int" where
  "str_find [] sub = (if sub = [] then 0 else - 1)"
| "str_find (c # cs) sub =
     (if prefix sub (c # cs) then 0
      else (let r = str_find cs sub in if r < 0 then - 1 else r + 1))"

text \<open>
  Attribute and method lookup. \<^verbatim>\<open>find\<close> and \<^verbatim>\<open>capitalize\<close> are methods of
  str alone; \<^verbatim>\<open>is_integer\<close> is an attribute of float and (from Python 3.12, the
  version whose output the demonstration shows) of int and bool.
\<close>

fun py_find :: "pyval \<Rightarrow> string \<Rightarrow> error + int" where
  "py_find (PStr t) sub = Inr (str_find t sub)"
| "py_find PNone sub = Inl AttributeError"
| "py_find (PBool b) sub = Inl AttributeError"
| "py_find (PInt i) sub = Inl AttributeError"
| "py_find (PFloat r) sub = Inl AttributeError"
| "py_find (PList xs) sub = Inl AttributeError"

fun py_capitalize :: "pyval \<Rightarrow> error + unit" where
  "py_capitalize (PStr t) = Inr ()"
| "py_capitalize PNone = Inl AttributeError"
| "py_capitalize (PBool b) = Inl AttributeError"
| "py_capitalize (PInt i) = Inl AttributeError"
| "py_capitalize (PFloat r) = Inl AttributeError"
| "py_capitalize (PList xs) = Inl AttributeError"

fun get_is_integer :: "pyval \<Rightarrow> error + unit" where
  "get_is_integer (PBool b) = Inr ()"
| "get_is_integer (PInt i) = Inr ()"
| "get_is_integer (PFloat r) = Inr ()"
| "get_is_integer PNone = Inl AttributeError"
| "get_is_integer (PStr s) = Inl AttributeError"
| "get_is_integer (PList xs) = Inl AttributeError"


section \<open>ex0: the processors\<close>

text \<open>
  A method returns \<open>Inr\<close> of its value, or \<open>Inl\<close> of the exception that leaves it.
  \<^verbatim>\<open>validate\<close> also prints: its value is paired with the lines printed, in order.
  \<open>and_then\<close> is sequencing: an exception raised by the first step skips the rest.
\<close>

fun and_then :: "error + 'a \<Rightarrow> ('a \<Rightarrow> error + 'b) \<Rightarrow> error + 'b" where
  "and_then (Inl e) f = Inl e"
| "and_then (Inr x) f = f x"

subsection \<open>NumericProcessor\<close>

text \<open>The loop \<^verbatim>\<open>for num in data: num.is_integer\<close> over the items already fetched.\<close>

fun each_is_integer :: "pyval list \<Rightarrow> error + unit" where
  "each_is_integer [] = Inr ()"
| "each_is_integer (num # rest) =
     (case get_is_integer num of Inl e \<Rightarrow> Inl e | Inr u \<Rightarrow> each_is_integer rest)"

definition NumericProcessor_validate :: "pyval \<Rightarrow> error + (bool \<times> string list)" where
  "NumericProcessor_validate data =
     (case and_then (py_iter data) each_is_integer of
        Inl e \<Rightarrow>
          if e = AttributeError \<or> e = TypeError
          then Inr (False, [''Not list of numbers''])
          else Inl e
      | Inr u \<Rightarrow> Inr (True, [''Validation: Numeric data verified'']))"

text \<open>
  The f-string of \<^verbatim>\<open>process\<close> evaluates and formats its fields from the
  left: \<^verbatim>\<open>len(data)\<close>, then \<^verbatim>\<open>sum(data)\<close>, then
  \<^verbatim>\<open>sum(data) / len(data)\<close>. Nothing is caught.
\<close>

definition NumericProcessor_process :: "pyval \<Rightarrow> error + fstring" where
  "NumericProcessor_process data =
     and_then (py_len data) (\<lambda>n.
     and_then (py_sum data) (\<lambda>s.
     and_then (format_number s) (\<lambda>sum_part.
     and_then (py_sum data) (\<lambda>s'.
     and_then (py_len data) (\<lambda>n'.
     and_then (py_truediv s' (int n')) (\<lambda>avg.
       Inr [Lit ''Processed '', Fmt (PInt (int n)), Lit '' numeric values , sum='',
            sum_part, Lit '', avg='', FmtFloat avg]))))))"

subsection \<open>TextProcessor\<close>

definition TextProcessor_validate :: "pyval \<Rightarrow> error + (bool \<times> string list)" where
  "TextProcessor_validate data =
     (case py_capitalize data of
        Inl e \<Rightarrow>
          if e = AttributeError \<or> e = TypeError
          then Inr (False, [''Not a string''])
          else Inl e
      | Inr u \<Rightarrow> Inr (True, [''Validation: Text data verified'']))"

subsection \<open>LogProcessor\<close>

text \<open>
  \<^verbatim>\<open>or\<close> is short-circuit: the second \<^verbatim>\<open>find\<close> runs only when the first
  found nothing. When neither marker occurs the \<^verbatim>\<open>try\<close> ends without a
  \<^verbatim>\<open>return\<close> and the last line returns \<^verbatim>\<open>False\<close>, printing nothing.
\<close>

definition LogProcessor_validate :: "pyval \<Rightarrow> error + (bool \<times> string list)" where
  "LogProcessor_validate data =
     (case (case py_find data ''ERROR'' of
              Inl e \<Rightarrow> Inl e
            | Inr i \<Rightarrow>
                if i > - 1 then Inr True
                else (case py_find data ''INFO'' of Inl e \<Rightarrow> Inl e | Inr j \<Rightarrow> Inr (j > - 1))) of
        Inl e \<Rightarrow>
          if e = AttributeError \<or> e = TypeError
          then Inr (False, [''Not a log entry''])
          else Inl e
      | Inr found \<Rightarrow>
          if found then Inr (True, [''Validation: Log entry verified''])
          else Inr (False, []))"


section \<open>ex1: the streams\<close>

text \<open>
  A stream object: the class it was built from (which decides the methods a call reaches)
  and the three attributes \<^verbatim>\<open>DataStream.__init__\<close> and the subclasses set.
  A method that assigns to \<^verbatim>\<open>self\<close> returns the object after the call next to
  its result, also when it raises.
\<close>

datatype stream_class = Sensor | Transaction | Event

record data_stream =
  cls :: stream_class
  processed_count :: int
  stream_id :: string
  type :: string

definition DataStream_init :: "stream_class \<Rightarrow> string \<Rightarrow> data_stream" where
  "DataStream_init c sid = \<lparr>cls = c, processed_count = 0, stream_id = sid, type = []\<rparr>"

definition SensorStream_init :: "string \<Rightarrow> data_stream" where
  "SensorStream_init sid = (DataStream_init Sensor sid)\<lparr>type := ''Environmental Data''\<rparr>"

definition TransactionStream_init :: "string \<Rightarrow> data_stream" where
  "TransactionStream_init sid =
     (DataStream_init Transaction sid)\<lparr>type := ''Transaction Stream''\<rparr>"

definition EventStream_init :: "string \<Rightarrow> data_stream" where
  "EventStream_init sid = (DataStream_init Event sid)\<lparr>type := ''Event Stream''\<rparr>"

definition DataStream_filter_data ::
    "data_stream \<Rightarrow> pyval \<Rightarrow> string option \<Rightarrow> error + pyval" where
  "DataStream_filter_data self data_batch criteria = Inr data_batch"

definition get_stats :: "data_stream \<Rightarrow> (string \<rightharpoonup> pyval)" where
  "get_stats self =
     [''stream_id'' \<mapsto> PStr (stream_id self),
      ''processed_count'' \<mapsto> PInt (processed_count self)]"

text \<open>
  A list comprehension \<^verbatim>\<open>[data for data in data_batch if cond]\<close>: the batch is
  iterated, the condition is evaluated on each item in order, and the first evaluation
  that raises ends the comprehension.
\<close>

fun filter_comp :: "(pyval \<Rightarrow> error + bool) \<Rightarrow> pyval list \<Rightarrow> error + pyval list" where
  "filter_comp cond [] = Inr []"
| "filter_comp cond (x # xs) =
     (case cond x of
        Inl e \<Rightarrow> Inl e
      | Inr b \<Rightarrow>
          (case filter_comp cond xs of
             Inl e \<Rightarrow> Inl e
           | Inr ys \<Rightarrow> Inr (if b then x # ys else ys)))"

definition list_comp :: "(pyval \<Rightarrow> error + bool) \<Rightarrow> pyval \<Rightarrow> error + pyval" where
  "list_comp cond data_batch =
     and_then (py_iter data_batch) (\<lambda>items.
     and_then (filter_comp cond items) (\<lambda>ys. Inr (PList ys)))"

subsection \<open>SensorStream\<close>

definition SensorStream_process_batch ::
    "data_stream \<Rightarrow> pyval \<Rightarrow> (error + fstring) \<times> data_stream" where
  "SensorStream_process_batch self data_batch =
     (case and_then (py_sum data_batch) (\<lambda>s.
           and_then (py_len data_batch) (\<lambda>n. py_truediv s (int n))) of
        Inl e \<Rightarrow>
          if e = TypeError \<or> e = ZeroDivisionError
          then (Inr [Lit ''['', Lit (stream_id self), Lit ''] Invalid sensor data''], self)
          else (Inl e, self)
      | Inr average \<Rightarrow>
          (case py_len data_batch of
             Inl e \<Rightarrow> (Inl e, self)
           | Inr n \<Rightarrow>
               (let self' = self\<lparr>processed_count := processed_count self + int n\<rparr> in
                case py_len data_batch of
                  Inl e \<Rightarrow> (Inl e, self')
                | Inr m \<Rightarrow>
                    (Inr [Lit ''['', Lit (stream_id self'), Lit ''] '', Fmt (PInt (int m)),
                          Lit '' readings processed, avg: '', Fmt2f average], self'))))"

definition SensorStream_filter_data ::
    "data_stream \<Rightarrow> pyval \<Rightarrow> string option \<Rightarrow> error + pyval" where
  "SensorStream_filter_data self data_batch criteria =
     (if criteria = None then Inr data_batch
      else if criteria = Some ''high''
        then list_comp (\<lambda>data. py_cmp_int (>) data 30) data_batch
      else if criteria = Some ''standard''
        then list_comp (\<lambda>data. py_cmp_int (\<le>) data 30) data_batch
      else Inr data_batch)"

subsection \<open>TransactionStream\<close>

text \<open>
  Only the \<^verbatim>\<open>sum\<close> stands inside the \<^verbatim>\<open>try\<close>, and only
  \<^verbatim>\<open>TypeError\<close> is caught. The count is raised before the f-string is built,
  and formatting \<^verbatim>\<open>{total}\<close> can raise.
\<close>

definition TransactionStream_process_batch ::
    "data_stream \<Rightarrow> pyval \<Rightarrow> (error + fstring) \<times> data_stream" where
  "TransactionStream_process_batch self data_batch =
     (case py_sum data_batch of
        Inl e \<Rightarrow>
          if e = TypeError
          then (Inr [Lit ''['', Lit (stream_id self), Lit ''] Invalid transaction data''], self)
          else (Inl e, self)
      | Inr tot \<Rightarrow>
          (case py_len data_batch of
             Inl e \<Rightarrow> (Inl e, self)
           | Inr n \<Rightarrow>
               (let self' = self\<lparr>processed_count := processed_count self + int n\<rparr> in
                case py_len data_batch of
                  Inl e \<Rightarrow> (Inl e, self')
                | Inr m \<Rightarrow>
                    (case format_number tot of
                       Inl e \<Rightarrow> (Inl e, self')
                     | Inr tot_part \<Rightarrow>
                         (Inr [Lit ''['', Lit (stream_id self'), Lit ''] '',
                               Fmt (PInt (int m)),
                               Lit '' operations processed, net flow: '', tot_part],
                          self')))))"

definition TransactionStream_filter_data ::
    "data_stream \<Rightarrow> pyval \<Rightarrow> string option \<Rightarrow> error + pyval" where
  "TransactionStream_filter_data self data_batch criteria =
     (if criteria = None then Inr data_batch
      else if criteria = Some ''positive''
        then list_comp (\<lambda>data. py_cmp_int (\<ge>) data 0) data_batch
      else if criteria = Some ''negative''
        then list_comp (\<lambda>data. py_cmp_int (<) data 0) data_batch
      else Inr data_batch)"

subsection \<open>EventStream\<close>

text \<open>
  The generator's condition \<^verbatim>\<open>isinstance(event, str) and "error" in event\<close>:
  the membership test runs on strs only, so it cannot raise.
\<close>

fun is_error_event :: "pyval \<Rightarrow> bool" where
  "is_error_event (PStr t) = str_contains ''error'' t"
| "is_error_event PNone = False"
| "is_error_event (PBool b) = False"
| "is_error_event (PInt i) = False"
| "is_error_event (PFloat r) = False"
| "is_error_event (PList xs) = False"

definition EventStream_process_batch ::
    "data_stream \<Rightarrow> pyval \<Rightarrow> (error + fstring) \<times> data_stream" where
  "EventStream_process_batch self data_batch =
     (case and_then (py_len data_batch) (\<lambda>tot.
           and_then (py_iter data_batch) (\<lambda>events.
             Inr (int tot, int (length (filter is_error_event events))))) of
        Inl e \<Rightarrow>
          if e = TypeError
          then (Inr [Lit ''['', Lit (stream_id self), Lit ''] Invalid event data''], self)
          else (Inl e, self)
      | Inr (tot, error_count) \<Rightarrow>
          (let self' = self\<lparr>processed_count := processed_count self + tot\<rparr> in
           (Inr [Lit ''['', Lit (stream_id self'), Lit ''] '', Fmt (PInt tot),
                 Lit '' events processed, '', Fmt (PInt error_count), Lit '' error(s)''],
            self')))"

definition EventStream_filter_data ::
    "data_stream \<Rightarrow> pyval \<Rightarrow> string option \<Rightarrow> error + pyval" where
  "EventStream_filter_data self data_batch criteria =
     (if criteria = None then Inr data_batch
      else if criteria = Some ''error''
        then list_comp (\<lambda>data. py_in ''error'' data) data_batch
      else if criteria = Some ''info''
        then list_comp (\<lambda>data. and_then (py_in ''error'' data) (\<lambda>b. Inr (\<not> b))) data_batch
      else Inr data_batch)"

subsection \<open>Method dispatch and StreamProcessor\<close>

text \<open>
  A call \<^verbatim>\<open>stream.process_batch(batch)\<close> reaches the method of the object's
  class, and so does \<^verbatim>\<open>stream.filter_data(batch, criteria)\<close>.
\<close>

definition process_batch :: "data_stream \<Rightarrow> pyval \<Rightarrow> (error + fstring) \<times> data_stream" where
  "process_batch self data_batch =
     (case cls self of
        Sensor \<Rightarrow> SensorStream_process_batch self data_batch
      | Transaction \<Rightarrow> TransactionStream_process_batch self data_batch
      | Event \<Rightarrow> EventStream_process_batch self data_batch)"

definition filter_data :: "data_stream \<Rightarrow> pyval \<Rightarrow> string option \<Rightarrow> error + pyval" where
  "filter_data self data_batch criteria =
     (case cls self of
        Sensor \<Rightarrow> SensorStream_filter_data self data_batch criteria
      | Transaction \<Rightarrow> TransactionStream_filter_data self data_batch criteria
      | Event \<Rightarrow> EventStream_filter_data self data_batch criteria)"

text \<open>
  \<^verbatim>\<open>process_streams\<close> walks \<^verbatim>\<open>self.streams\<close> in order. The model returns the
  streams after the walk and the lines printed; the objects in the list are taken to be
  distinct. Every exception of the model is an \<^verbatim>\<open>Exception\<close>, so the handler
  catches each.
\<close>

fun process_streams ::
    "data_stream list \<Rightarrow> (string \<rightharpoonup> pyval) \<Rightarrow> data_stream list \<times> fstring list" where
  "process_streams [] data_map = ([], [])"
| "process_streams (stream # rest) data_map =
     (let batch = (case data_map (stream_id stream) of None \<Rightarrow> PList [] | Some b \<Rightarrow> b);
          (outcome, stream') = process_batch stream batch;
          line = (case outcome of
                    Inr result \<Rightarrow> result
                  | Inl e \<Rightarrow>
                      [Lit ''Processing error in '', Lit (stream_id stream'), Lit '': '',
                       FmtErr e]);
          (rest', lines) = process_streams rest data_map
      in (stream' # rest', line # lines))"


section \<open>Vocabulary of the properties\<close>

text \<open>
  A numeric batch is a list whose items are numbers; \<open>number_of\<close> reads the value of
  a number, so the sum \<open>S\<close> of a batch \<open>xs\<close> is \<open>sum_list (map number_of xs)\<close>.
  \<open>average_expr\<close> is the expression \<^verbatim>\<open>sum(data) / len(data)\<close> that
  \<^verbatim>\<open>NumericProcessor.process\<close> and \<^verbatim>\<open>SensorStream.process_batch\<close> both
  evaluate, and \<open>cnum_exact\<close> is the value of a computed number in exact arithmetic.
\<close>

definition is_number :: "pyval \<Rightarrow> bool" where
  "is_number v = (as_num v \<noteq> None)"

definition number_of :: "pyval \<Rightarrow> rat" where
  "number_of v = (case as_num v of None \<Rightarrow> 0 | Some x \<Rightarrow> num_val x)"

definition average_expr :: "pyval \<Rightarrow> error + fexpr" where
  "average_expr data =
     and_then (py_sum data) (\<lambda>s.
     and_then (py_len data) (\<lambda>n. py_truediv s (int n)))"

definition cnum_exact :: "cnum \<Rightarrow> rat" where
  "cnum_exact s = (case s of CInt i \<Rightarrow> of_int i | CFloat x \<Rightarrow> exact x)"

text \<open>
  The string each class returns from its \<^verbatim>\<open>except\<close> branch. A call of
  \<^verbatim>\<open>process_batch\<close> succeeded when it returned a string other than that one.
\<close>

definition failure_string :: "data_stream \<Rightarrow> fstring" where
  "failure_string self =
     [Lit ''['', Lit (stream_id self),
      Lit (case cls self of
             Sensor \<Rightarrow> ''] Invalid sensor data''
           | Transaction \<Rightarrow> ''] Invalid transaction data''
           | Event \<Rightarrow> ''] Invalid event data'')]"

definition succeeded :: "data_stream \<Rightarrow> error + fstring \<Rightarrow> bool" where
  "succeeded self outcome =
     (case outcome of Inl e \<Rightarrow> False | Inr result \<Rightarrow> result \<noteq> failure_string self)"

text \<open>
  The operations a client can apply to a stream, and the stream after one of them and
  after a sequence of them. \<^verbatim>\<open>filter_data\<close> and \<^verbatim>\<open>get_stats\<close> assign
  nothing to \<^verbatim>\<open>self\<close>, whatever they return or raise.
\<close>

datatype call = Process_batch pyval | Filter_data pyval "string option" | Get_stats

fun after_call :: "data_stream \<Rightarrow> call \<Rightarrow> data_stream" where
  "after_call self (Process_batch data_batch) = snd (process_batch self data_batch)"
| "after_call self (Filter_data data_batch criteria) = self"
| "after_call self Get_stats = self"

definition run :: "data_stream \<Rightarrow> call list \<Rightarrow> data_stream" where
  "run self calls = foldl after_call self calls"

text \<open>What a call adds to the sum of the batch sizes of the successful calls.\<close>

definition batch_size :: "pyval \<Rightarrow> int" where
  "batch_size data_batch = (case py_len data_batch of Inl e \<Rightarrow> 0 | Inr n \<Rightarrow> int n)"

fun credited :: "data_stream \<Rightarrow> call \<Rightarrow> int" where
  "credited self (Process_batch data_batch) =
     (if succeeded self (fst (process_batch self data_batch)) then batch_size data_batch else 0)"
| "credited self (Filter_data data_batch criteria) = 0"
| "credited self Get_stats = 0"

text \<open>The criteria names each class compares against.\<close>

fun criteria_names :: "stream_class \<Rightarrow> string list" where
  "criteria_names Sensor = [''high'', ''standard'']"
| "criteria_names Transaction = [''positive'', ''negative'']"
| "criteria_names Event = [''error'', ''info'']"


section \<open>Summing a batch of numbers\<close>

text \<open>
  Adding numbers never raises \<^verbatim>\<open>TypeError\<close>: the sum of a numeric batch either
  leaves the float range at a conversion or is a number whose value in exact arithmetic is
  \<open>S\<close>, and dividing it by a positive length either leaves the float range or is a
  float whose value in exact arithmetic is \<open>S / n\<close>.
\<close>

lemma num_add_cases:
  "num_add acc y = Inl OverflowError \<or>
   (\<exists>s. num_add acc y = Inr s \<and> cnum_exact s = cnum_exact acc + num_val y)"
  by (cases acc; cases y) (auto simp: int_to_float_def cnum_exact_def)

lemma py_add_number:
  assumes "is_number b"
  shows "py_add acc b = Inl OverflowError \<or>
   (\<exists>s. py_add acc b = Inr s \<and> cnum_exact s = cnum_exact acc + number_of b)"
proof -
  from assms obtain y where y: "as_num b = Some y"
    by (auto simp: is_number_def)
  with num_add_cases [of acc y] show ?thesis
    by (simp add: py_add_def number_of_def)
qed

lemma sum_from_numbers:
  "list_all is_number xs \<Longrightarrow>
     sum_from acc xs = Inl OverflowError \<or>
     (\<exists>s. sum_from acc xs = Inr s \<and>
          cnum_exact s = cnum_exact acc + sum_list (map number_of xs))"
proof (induction xs arbitrary: acc)
  case Nil
  then show ?case by simp
next
  case (Cons x xs)
  then have nx: "is_number x" and nxs: "list_all is_number xs" by simp_all
  from py_add_number [OF nx, of acc] show ?case
  proof
    assume "py_add acc x = Inl OverflowError"
    then show ?thesis by simp
  next
    assume "\<exists>s. py_add acc x = Inr s \<and> cnum_exact s = cnum_exact acc + number_of x"
    then obtain s where s: "py_add acc x = Inr s"
      "cnum_exact s = cnum_exact acc + number_of x" by blast
    from Cons.IH [OF nxs, of s] s show ?thesis by (auto simp: algebra_simps)
  qed
qed

lemma py_sum_numbers:
  assumes "list_all is_number xs"
  shows "py_sum (PList xs) = Inl OverflowError \<or>
     (\<exists>s. py_sum (PList xs) = Inr s \<and> cnum_exact s = sum_list (map number_of xs))"
  using sum_from_numbers [OF assms, of "CInt 0"]
  by (simp add: py_sum_def cnum_exact_def)

lemma truediv_cases:
  assumes "0 < n"
  shows "py_truediv s (int n) = Inl OverflowError \<or>
         (\<exists>a. py_truediv s (int n) = Inr a \<and> exact a = cnum_exact s / of_nat n)"
  using assms by (cases s) (auto simp: cnum_exact_def int_to_float_def)

lemma average_of_numbers:
  assumes nums: "list_all is_number xs" and ne: "xs \<noteq> []"
    and ok: "average_expr (PList xs) \<noteq> Inl OverflowError"
  shows "\<exists>s a. py_sum (PList xs) = Inr s \<and>
           cnum_exact s = sum_list (map number_of xs) \<and>
           py_truediv s (int (length xs)) = Inr a \<and>
           exact a = sum_list (map number_of xs) / of_nat (length xs)"
proof -
  from py_sum_numbers [OF nums] ok obtain s where s: "py_sum (PList xs) = Inr s"
    "cnum_exact s = sum_list (map number_of xs)"
    by (auto simp: average_expr_def)
  from ne have "0 < length xs" by simp
  from truediv_cases [OF this, of s] ok s show ?thesis
    by (auto simp: average_expr_def)
qed

text \<open>
  On a batch of ints the sum is the exact int \<open>S\<close> and the average is the int division
  \<open>S / n\<close>, which raises exactly when the quotient is too large for a float.
\<close>

lemma sum_from_ints:
  "sum_from (CInt a) (map PInt ks) = Inr (CInt (a + sum_list ks))"
  by (induction ks arbitrary: a) (simp_all add: add.assoc py_add_def)

lemma average_of_ints:
  assumes "ks \<noteq> []"
  shows "average_expr (PList (map PInt ks)) =
     (if float_overflows (of_int (sum_list ks) / of_nat (length ks)) then Inl OverflowError
      else Inr (FIntDiv (sum_list ks) (int (length ks))))"
  using assms by (simp add: average_expr_def py_sum_def sum_from_ints)

text \<open>An int below a power of ten within the digit limit formats.\<close>

lemma short_int:
  assumes "\<bar>i\<bar> < 10 ^ k" "k \<le> max_str_digits"
  shows "\<not> int_too_long i"
proof -
  have "(10::int) ^ k \<le> 10 ^ max_str_digits"
    using assms(2) by (intro power_increasing) simp_all
  with assms(1) show ?thesis unfolding int_too_long_def by linarith
qed

lemma zero_formats: "\<not> int_too_long 0"
  by (simp add: int_too_long_def not_le)

lemma format_in_range:
  "\<bar>cnum_exact s\<bar> < 10 ^ max_str_digits \<Longrightarrow> format_number s = Inr (number_frag s)"
proof (cases s)
  case (CInt i)
  assume "\<bar>cnum_exact s\<bar> < 10 ^ max_str_digits"
  with CInt have "(of_int \<bar>i\<bar> :: rat) < of_int (10 ^ max_str_digits)"
    by (simp add: cnum_exact_def)
  then have "\<bar>i\<bar> < 10 ^ max_str_digits" by (simp only: of_int_less_iff)
  with CInt show ?thesis by (simp add: int_too_long_def)
next
  case (CFloat x)
  then show ?thesis by simp
qed


section \<open>Properties of the processors and of the average\<close>

text \<open>
  C1, as the code has it. For a batch \<open>xs\<close> of numbers that is not empty, of length
  \<open>n\<close> and sum \<open>S\<close>, on which \<^verbatim>\<open>sum(xs) / len(xs)\<close> raises no
  \<^verbatim>\<open>OverflowError\<close>: \<^verbatim>\<open>SensorStream.process_batch\<close> reports the float
  \<open>a\<close> that \<^verbatim>\<open>sum(xs) / len(xs)\<close> computes, an expression whose value in exact
  arithmetic is \<open>S / n\<close>, and counts the \<open>n\<close> readings; and when \<open>S\<close> has no
  more digits than an int may have to be formatted, \<^verbatim>\<open>NumericProcessor.process\<close>
  reports the same \<open>a\<close> next to the sum. For the empty batch
  \<^verbatim>\<open>SensorStream.process_batch\<close> returns its failure string and raises nothing,
  while \<^verbatim>\<open>NumericProcessor.process\<close> raises \<^verbatim>\<open>ZeroDivisionError\<close>.
\<close>

theorem average_reported:
  "(list_all is_number xs \<and> xs \<noteq> [] \<and> average_expr (PList xs) \<noteq> Inl OverflowError \<longrightarrow>
      (\<exists>a. average_expr (PList xs) = Inr a \<and>
         exact a = sum_list (map number_of xs) / of_nat (length xs) \<and>
         SensorStream_process_batch self (PList xs) =
           (Inr [Lit ''['', Lit (stream_id self), Lit ''] '', Fmt (PInt (int (length xs))),
                 Lit '' readings processed, avg: '', Fmt2f a],
            self\<lparr>processed_count := processed_count self + int (length xs)\<rparr>) \<and>
         (\<bar>sum_list (map number_of xs)\<bar> < 10 ^ max_str_digits \<longrightarrow>
            (\<exists>s. py_sum (PList xs) = Inr s \<and>
               cnum_exact s = sum_list (map number_of xs) \<and>
               NumericProcessor_process (PList xs) =
                 Inr [Lit ''Processed '', Fmt (PInt (int (length xs))),
                      Lit '' numeric values , sum='', number_frag s, Lit '', avg='',
                      FmtFloat a]))))
   \<and> SensorStream_process_batch self (PList []) =
        (Inr [Lit ''['', Lit (stream_id self), Lit ''] Invalid sensor data''], self)
   \<and> NumericProcessor_process (PList []) = Inl ZeroDivisionError"
proof (intro conjI impI)
  assume h: "list_all is_number xs \<and> xs \<noteq> [] \<and> average_expr (PList xs) \<noteq> Inl OverflowError"
  then obtain s a where s: "py_sum (PList xs) = Inr s"
      "cnum_exact s = sum_list (map number_of xs)"
      "py_truediv s (int (length xs)) = Inr a"
      "exact a = sum_list (map number_of xs) / of_nat (length xs)"
    using average_of_numbers [of xs] by blast
  have avg: "average_expr (PList xs) = Inr a"
    using s by (simp add: average_expr_def)
  have sensor: "SensorStream_process_batch self (PList xs) =
           (Inr [Lit ''['', Lit (stream_id self), Lit ''] '', Fmt (PInt (int (length xs))),
                 Lit '' readings processed, avg: '', Fmt2f a],
            self\<lparr>processed_count := processed_count self + int (length xs)\<rparr>)"
    using s by (simp add: SensorStream_process_batch_def)
  have proc: "\<bar>sum_list (map number_of xs)\<bar> < 10 ^ max_str_digits \<longrightarrow>
            (\<exists>s. py_sum (PList xs) = Inr s \<and>
               cnum_exact s = sum_list (map number_of xs) \<and>
               NumericProcessor_process (PList xs) =
                 Inr [Lit ''Processed '', Fmt (PInt (int (length xs))),
                      Lit '' numeric values , sum='', number_frag s, Lit '', avg='',
                      FmtFloat a])"
  proof
    assume "\<bar>sum_list (map number_of xs)\<bar> < 10 ^ max_str_digits"
    with s(2) have "format_number s = Inr (number_frag s)"
      by (simp add: format_in_range)
    with s show "\<exists>s. py_sum (PList xs) = Inr s \<and>
               cnum_exact s = sum_list (map number_of xs) \<and>
               NumericProcessor_process (PList xs) =
                 Inr [Lit ''Processed '', Fmt (PInt (int (length xs))),
                      Lit '' numeric values , sum='', number_frag s, Lit '', avg='',
                      FmtFloat a]"
      by (intro exI [of _ s]) (simp add: NumericProcessor_process_def)
  qed
  from avg s(4) sensor proc
  show "\<exists>a. average_expr (PList xs) = Inr a \<and>
         exact a = sum_list (map number_of xs) / of_nat (length xs) \<and>
         SensorStream_process_batch self (PList xs) =
           (Inr [Lit ''['', Lit (stream_id self), Lit ''] '', Fmt (PInt (int (length xs))),
                 Lit '' readings processed, avg: '', Fmt2f a],
            self\<lparr>processed_count := processed_count self + int (length xs)\<rparr>) \<and>
         (\<bar>sum_list (map number_of xs)\<bar> < 10 ^ max_str_digits \<longrightarrow>
            (\<exists>s. py_sum (PList xs) = Inr s \<and>
               cnum_exact s = sum_list (map number_of xs) \<and>
               NumericProcessor_process (PList xs) =
                 Inr [Lit ''Processed '', Fmt (PInt (int (length xs))),
                      Lit '' numeric values , sum='', number_frag s, Lit '', avg='',
                      FmtFloat a]))"
    by blast
next
  show "SensorStream_process_batch self (PList []) =
        (Inr [Lit ''['', Lit (stream_id self), Lit ''] Invalid sensor data''], self)"
    by (simp add: SensorStream_process_batch_def py_sum_def)
  show "NumericProcessor_process (PList []) = Inl ZeroDivisionError"
    by (simp add: NumericProcessor_process_def py_sum_def zero_formats)
qed

text \<open>
  The batch of the first demonstration, \<^verbatim>\<open>[1, 2, 3, 4, 5]\<close>: sum 15, average the
  float \<^verbatim>\<open>15 / 5\<close>, exactly 3.
\<close>

lemma demo_average:
  "average_expr (PList [PInt 1, PInt 2, PInt 3, PInt 4, PInt 5]) = Inr (FIntDiv 15 5)"
  by (simp add: average_expr_def py_sum_def py_add_def float_overflows_def)

theorem average_reported_witness:
  "NumericProcessor_process (PList [PInt 1, PInt 2, PInt 3, PInt 4, PInt 5]) =
     Inr [Lit ''Processed '', Fmt (PInt 5), Lit '' numeric values , sum='', Fmt (PInt 15),
          Lit '', avg='', FmtFloat (FIntDiv 15 5)]
   \<and> SensorStream_process_batch (SensorStream_init ''SENSOR_001'')
        (PList [PInt 1, PInt 2, PInt 3, PInt 4, PInt 5]) =
       (Inr [Lit ''['', Lit ''SENSOR_001'', Lit ''] '', Fmt (PInt 5),
             Lit '' readings processed, avg: '', Fmt2f (FIntDiv 15 5)],
        (SensorStream_init ''SENSOR_001'')\<lparr>processed_count := 5\<rparr>)
   \<and> exact (FIntDiv 15 5) = 3"
proof -
  let ?xs = "[PInt 1, PInt 2, PInt 3, PInt 4, PInt 5]"
  have h: "list_all is_number ?xs \<and> ?xs \<noteq> [] \<and> average_expr (PList ?xs) \<noteq> Inl OverflowError"
    by (simp add: is_number_def demo_average)
  have sm: "py_sum (PList ?xs) = Inr (CInt 15)" by (simp add: py_sum_def py_add_def)
  have "(15::rat) < 10 ^ 2" by simp
  also have "(10::rat) ^ 2 \<le> 10 ^ max_str_digits"
    by (intro power_increasing) (simp_all add: max_str_digits_def)
  finally have small: "\<bar>sum_list (map number_of ?xs)\<bar> < 10 ^ max_str_digits"
    by (simp add: number_of_def)
  from average_reported [of ?xs "SensorStream_init ''SENSOR_001''"] h small
  show ?thesis
    by (auto simp: sm demo_average SensorStream_init_def DataStream_init_def)
qed

text \<open>
  The claim C1 as it was stated fails at the empty list: \<^verbatim>\<open>process([])\<close> raises.
\<close>

theorem process_empty_list_raises:
  "NumericProcessor_process (PList []) = Inl ZeroDivisionError"
  by (simp add: NumericProcessor_process_def py_sum_def zero_formats)

text \<open>
  C10. \<^verbatim>\<open>NumericProcessor.validate\<close> returns \<^verbatim>\<open>True\<close> for the empty list:
  the loop body never runs. The same input makes \<^verbatim>\<open>process\<close> raise
  \<^verbatim>\<open>ZeroDivisionError\<close>, from the division by \<^verbatim>\<open>len(data)\<close>.
\<close>

theorem validate_accepts_empty_list_process_raises:
  "NumericProcessor_validate (PList []) = Inr (True, [''Validation: Numeric data verified''])
   \<and> NumericProcessor_process (PList []) = Inl ZeroDivisionError"
  by (simp add: NumericProcessor_validate_def NumericProcessor_process_def
      py_sum_def zero_formats)


section \<open>Properties of process_batch\<close>

text \<open>
  A batch with an item that is not a number makes \<^verbatim>\<open>sum\<close> raise
  \<^verbatim>\<open>TypeError\<close>, unless a conversion before it has already left the float range.
\<close>

lemma py_add_not_number:
  "\<not> is_number b \<Longrightarrow> py_add acc b = Inl TypeError"
  by (simp add: py_add_def is_number_def)

lemma sum_from_not_numbers:
  "\<not> list_all is_number xs \<Longrightarrow>
     sum_from acc xs = Inl TypeError \<or> sum_from acc xs = Inl OverflowError"
proof (induction xs arbitrary: acc)
  case Nil
  then show ?case by simp
next
  case (Cons x xs)
  show ?case
  proof (cases "is_number x")
    case False
    then show ?thesis by (simp add: py_add_not_number)
  next
    case True
    with Cons.prems have rest: "\<not> list_all is_number xs" by simp
    from py_add_number [OF True, of acc] show ?thesis
    proof
      assume "py_add acc x = Inl OverflowError"
      then show ?thesis by simp
    next
      assume "\<exists>s. py_add acc x = Inr s \<and> cnum_exact s = cnum_exact acc + number_of x"
      then obtain s where s: "py_add acc x = Inr s" by blast
      from Cons.IH [OF rest, of s] s show ?thesis by simp
    qed
  qed
qed

lemma py_sum_not_numbers:
  "\<not> list_all is_number xs \<Longrightarrow>
     py_sum (PList xs) = Inl TypeError \<or> py_sum (PList xs) = Inl OverflowError"
  using sum_from_not_numbers [of xs "CInt 0"] by (simp add: py_sum_def)

lemma py_sum_cases:
  "py_sum (PList xs) = Inl TypeError \<or> py_sum (PList xs) = Inl OverflowError \<or>
   (\<exists>s. py_sum (PList xs) = Inr s)"
  using py_sum_numbers [of xs] py_sum_not_numbers [of xs] by blast

lemma py_sum_Nil: "py_sum (PList []) = Inr (CInt 0)"
  by (simp add: py_sum_def)

lemma format_number_cases:
  "format_number s = Inl ValueError \<or> format_number s = Inr (number_frag s)"
  by (cases s) simp_all

lemma sensor_outcome:
  assumes c: "cls self = Sensor"
  shows "(case SensorStream_process_batch self (PList xs) of (outcome, self') \<Rightarrow>
      outcome \<noteq> Inl TypeError \<and> outcome \<noteq> Inl ZeroDivisionError \<and> outcome \<noteq> Inl AttributeError
    \<and> (outcome = Inr (failure_string self)) =
         (xs = [] \<or> py_sum (PList xs) = Inl TypeError)
    \<and> self' = (if succeeded self outcome
               then self\<lparr>processed_count := processed_count self + int (length xs)\<rparr>
               else self))"
proof -
  have fs: "failure_string self =
      [Lit ''['', Lit (stream_id self), Lit ''] Invalid sensor data'']"
    using c by (simp add: failure_string_def)
  show ?thesis
  proof (cases "xs = []")
    case True
    then show ?thesis
      by (simp add: SensorStream_process_batch_def py_sum_Nil fs succeeded_def)
  next
    case False
    then have pos: "0 < length xs" by simp
    from py_sum_cases [of xs] show ?thesis
    proof (elim disjE exE)
      assume "py_sum (PList xs) = Inl TypeError"
      then show ?thesis by (simp add: SensorStream_process_batch_def fs succeeded_def)
    next
      assume "py_sum (PList xs) = Inl OverflowError"
      then show ?thesis using False
        by (simp add: SensorStream_process_batch_def fs succeeded_def)
    next
      fix s assume s: "py_sum (PList xs) = Inr s"
      from truediv_cases [OF pos, of s] show ?thesis
        using s False by (auto simp: SensorStream_process_batch_def fs succeeded_def)
    qed
  qed
qed

lemma transaction_outcome:
  assumes c: "cls self = Transaction"
  shows "(case TransactionStream_process_batch self (PList xs) of (outcome, self') \<Rightarrow>
      outcome \<noteq> Inl TypeError \<and> outcome \<noteq> Inl ZeroDivisionError \<and> outcome \<noteq> Inl AttributeError
    \<and> (outcome = Inr (failure_string self)) = (py_sum (PList xs) = Inl TypeError)
    \<and> self' = (if succeeded self outcome \<or> outcome = Inl ValueError
               then self\<lparr>processed_count := processed_count self + int (length xs)\<rparr>
               else self))"
proof -
  have fs: "failure_string self =
      [Lit ''['', Lit (stream_id self), Lit ''] Invalid transaction data'']"
    using c by (simp add: failure_string_def)
  from py_sum_cases [of xs] show ?thesis
  proof (elim disjE exE)
    assume "py_sum (PList xs) = Inl TypeError"
    then show ?thesis by (simp add: TransactionStream_process_batch_def fs succeeded_def)
  next
    assume "py_sum (PList xs) = Inl OverflowError"
    then show ?thesis by (simp add: TransactionStream_process_batch_def fs succeeded_def)
  next
    fix s assume s: "py_sum (PList xs) = Inr s"
    from format_number_cases [of s] show ?thesis
      using s by (auto simp: TransactionStream_process_batch_def fs succeeded_def)
  qed
qed

lemma event_outcome:
  "EventStream_process_batch self (PList xs) =
     (Inr [Lit ''['', Lit (stream_id self), Lit ''] '', Fmt (PInt (int (length xs))),
           Lit '' events processed, '',
           Fmt (PInt (int (length (filter is_error_event xs)))), Lit '' error(s)''],
      self\<lparr>processed_count := processed_count self + int (length xs)\<rparr>)"
  by (simp add: EventStream_process_batch_def)

text \<open>
  C2, as the code has it. For each of the three classes and every list \<open>xs\<close>:
  no \<^verbatim>\<open>TypeError\<close>, \<^verbatim>\<open>ZeroDivisionError\<close> or
  \<^verbatim>\<open>AttributeError\<close> leaves \<^verbatim>\<open>process_batch\<close>. It returns the class's
  failure string exactly when, for \<^verbatim>\<open>SensorStream\<close>, the batch is empty or
  summing it raises \<^verbatim>\<open>TypeError\<close>; for \<^verbatim>\<open>TransactionStream\<close>, summing
  it raises \<^verbatim>\<open>TypeError\<close> (the empty batch is a success); for
  \<^verbatim>\<open>EventStream\<close>, never. A call that succeeded added exactly
  \<^verbatim>\<open>len(xs)\<close> to \<^verbatim>\<open>processed_count\<close> and changed nothing else; a call
  that returned the failure string left the stream as it was. Summing raises
  \<^verbatim>\<open>TypeError\<close> only on a batch with an item that is not a number.
\<close>

theorem process_batch_outcome:
  "(case process_batch self (PList xs) of (outcome, self') \<Rightarrow>
      outcome \<noteq> Inl TypeError \<and> outcome \<noteq> Inl ZeroDivisionError \<and> outcome \<noteq> Inl AttributeError
    \<and> (outcome = Inr (failure_string self)) =
         (case cls self of
            Sensor \<Rightarrow> xs = [] \<or> py_sum (PList xs) = Inl TypeError
          | Transaction \<Rightarrow> py_sum (PList xs) = Inl TypeError
          | Event \<Rightarrow> False)
    \<and> (succeeded self outcome \<longrightarrow>
         self' = self\<lparr>processed_count := processed_count self + int (length xs)\<rparr>)
    \<and> (outcome = Inr (failure_string self) \<longrightarrow> self' = self))
   \<and> (list_all is_number xs \<longrightarrow> py_sum (PList xs) \<noteq> Inl TypeError)
   \<and> (\<not> list_all is_number xs \<longrightarrow>
        py_sum (PList xs) = Inl TypeError \<or> py_sum (PList xs) = Inl OverflowError)"
proof (intro conjI impI)
  show "case process_batch self (PList xs) of (outcome, self') \<Rightarrow>
      outcome \<noteq> Inl TypeError \<and> outcome \<noteq> Inl ZeroDivisionError \<and> outcome \<noteq> Inl AttributeError
    \<and> (outcome = Inr (failure_string self)) =
         (case cls self of
            Sensor \<Rightarrow> xs = [] \<or> py_sum (PList xs) = Inl TypeError
          | Transaction \<Rightarrow> py_sum (PList xs) = Inl TypeError
          | Event \<Rightarrow> False)
    \<and> (succeeded self outcome \<longrightarrow>
         self' = self\<lparr>processed_count := processed_count self + int (length xs)\<rparr>)
    \<and> (outcome = Inr (failure_string self) \<longrightarrow> self' = self)"
  proof (cases "cls self")
    case Sensor
    with sensor_outcome [of self xs] show ?thesis
      by (auto simp: process_batch_def succeeded_def split: prod.splits)
  next
    case Transaction
    with transaction_outcome [of self xs] show ?thesis
      by (auto simp: process_batch_def succeeded_def split: prod.splits)
  next
    case Event
    then show ?thesis
      by (simp add: process_batch_def failure_string_def succeeded_def event_outcome)
  qed
next
  assume "list_all is_number xs"
  from py_sum_numbers [OF this] show "py_sum (PList xs) \<noteq> Inl TypeError" by auto
next
  assume "\<not> list_all is_number xs"
  then show "py_sum (PList xs) = Inl TypeError \<or> py_sum (PList xs) = Inl OverflowError"
    by (rule py_sum_not_numbers)
qed

text \<open>
  A sensor batch with a str in it is refused and not counted; the transaction batch of the
  demonstration is counted.
\<close>

theorem process_batch_outcome_witness:
  "process_batch (SensorStream_init ''SENSOR_001'') (PList [PInt 1, PStr ''a'']) =
     (Inr [Lit ''['', Lit ''SENSOR_001'', Lit ''] Invalid sensor data''],
      SensorStream_init ''SENSOR_001'')
   \<and> process_batch (TransactionStream_init ''TRANS_001'')
        (PList [PInt 100, PInt 150, PInt (- 75)]) =
     (Inr [Lit ''['', Lit ''TRANS_001'', Lit ''] '', Fmt (PInt 3),
           Lit '' operations processed, net flow: '', Fmt (PInt 175)],
      (TransactionStream_init ''TRANS_001'')\<lparr>processed_count := 3\<rparr>)"
proof -
  let ?s = "SensorStream_init ''SENSOR_001''"
  let ?t = "TransactionStream_init ''TRANS_001''"
  have a: "\<not> list_all is_number [PInt 1, PStr ''a'']"
    by (simp add: is_number_def)
  have sa: "py_sum (PList [PInt 1, PStr ''a'']) = Inl TypeError"
    by (simp add: py_sum_def py_add_def)
  have b: "list_all is_number [PInt 100, PInt 150, PInt (- 75)]"
    by (simp add: is_number_def)
  have short: "\<not> int_too_long 175"
    by (rule short_int [of _ 3]) (simp_all add: max_str_digits_def)
  have sb: "fst (process_batch ?t (PList [PInt 100, PInt 150, PInt (- 75)])) =
     Inr [Lit ''['', Lit ''TRANS_001'', Lit ''] '', Fmt (PInt 3),
           Lit '' operations processed, net flow: '', Fmt (PInt 175)]"
    by (simp add: process_batch_def TransactionStream_process_batch_def py_sum_def py_add_def
        short TransactionStream_init_def DataStream_init_def)
  have 1: "process_batch ?s (PList [PInt 1, PStr ''a'']) =
     (Inr [Lit ''['', Lit ''SENSOR_001'', Lit ''] Invalid sensor data''], ?s)"
    using process_batch_outcome [of ?s "[PInt 1, PStr ''a'']"] a sa
    by (auto simp: failure_string_def succeeded_def SensorStream_init_def DataStream_init_def
        split: prod.splits)
  have 2: "process_batch ?t (PList [PInt 100, PInt 150, PInt (- 75)]) =
     (Inr [Lit ''['', Lit ''TRANS_001'', Lit ''] '', Fmt (PInt 3),
           Lit '' operations processed, net flow: '', Fmt (PInt 175)],
      ?t\<lparr>processed_count := 3\<rparr>)"
    using process_batch_outcome [of ?t "[PInt 100, PInt 150, PInt (- 75)]"] b sb
    by (auto simp: failure_string_def succeeded_def TransactionStream_init_def DataStream_init_def
        split: prod.splits)
  from 1 2 show ?thesis by simp
qed

text \<open>
  The claim C2 as it was stated fails here: the empty batch is no failure for
  \<^verbatim>\<open>TransactionStream\<close>, and a batch of the wrong type is none for
  \<^verbatim>\<open>EventStream\<close>, which counts it.
\<close>

theorem empty_batch_and_mismatch_succeed:
  "process_batch (TransactionStream_init ''TRANS_001'') (PList []) =
     (Inr [Lit ''['', Lit ''TRANS_001'', Lit ''] '', Fmt (PInt 0),
           Lit '' operations processed, net flow: '', Fmt (PInt 0)],
      TransactionStream_init ''TRANS_001'')
   \<and> process_batch (EventStream_init ''EVENT_001'') (PList [PInt 7]) =
     (Inr [Lit ''['', Lit ''EVENT_001'', Lit ''] '', Fmt (PInt 1),
           Lit '' events processed, '', Fmt (PInt 0), Lit '' error(s)''],
      (EventStream_init ''EVENT_001'')\<lparr>processed_count := 1\<rparr>)"
  by (simp add: process_batch_def TransactionStream_process_batch_def
      EventStream_process_batch_def py_sum_def zero_formats TransactionStream_init_def
      EventStream_init_def DataStream_init_def)


section \<open>The processed count\<close>

text \<open>
  A call of \<^verbatim>\<open>process_batch\<close> leaves the stream as it was or adds the batch size
  to the count, and it adds it whenever the call succeeded. So every stream starts at 0,
  no sequence of operations lowers the count, and \<^verbatim>\<open>filter_data\<close> and
  \<^verbatim>\<open>get_stats\<close> leave it as it is.
\<close>

lemma sensor_count:
  assumes "cls self = Sensor"
  shows "snd (SensorStream_process_batch self b) =
     (if succeeded self (fst (SensorStream_process_batch self b))
      then self\<lparr>processed_count := processed_count self + batch_size b\<rparr> else self)"
  using assms
  by (auto simp: SensorStream_process_batch_def Let_def succeeded_def failure_string_def
      batch_size_def split: sum.splits)

lemma transaction_count:
  assumes "cls self = Transaction"
  shows "(snd (TransactionStream_process_batch self b) = self \<or>
          snd (TransactionStream_process_batch self b) =
            self\<lparr>processed_count := processed_count self + batch_size b\<rparr>)
       \<and> (succeeded self (fst (TransactionStream_process_batch self b)) \<longrightarrow>
          snd (TransactionStream_process_batch self b) =
            self\<lparr>processed_count := processed_count self + batch_size b\<rparr>)"
  using assms
  by (auto simp: TransactionStream_process_batch_def Let_def succeeded_def failure_string_def
      batch_size_def split: sum.splits)

lemma event_count:
  assumes "cls self = Event"
  shows "snd (EventStream_process_batch self b) =
     (if succeeded self (fst (EventStream_process_batch self b))
      then self\<lparr>processed_count := processed_count self + batch_size b\<rparr> else self)"
proof (cases "py_len b")
  case (Inl e)
  then have "e = TypeError" by (cases b) auto
  with Inl assms show ?thesis
    by (simp add: EventStream_process_batch_def succeeded_def failure_string_def)
next
  case (Inr n)
  then obtain items where "py_iter b = Inr items" by (cases b) auto
  with Inr assms show ?thesis
    by (simp add: EventStream_process_batch_def succeeded_def failure_string_def
        batch_size_def Let_def)
qed

lemma process_batch_snd:
  "snd (process_batch self b) = self \<or>
   snd (process_batch self b) = self\<lparr>processed_count := processed_count self + batch_size b\<rparr>"
  using sensor_count [of self b] transaction_count [of self b] event_count [of self b]
  by (cases "cls self") (auto simp: process_batch_def)

lemma process_batch_succeeded:
  "succeeded self (fst (process_batch self b)) \<Longrightarrow>
     snd (process_batch self b) = self\<lparr>processed_count := processed_count self + batch_size b\<rparr>"
  using sensor_count [of self b] transaction_count [of self b] event_count [of self b]
  by (cases "cls self") (auto simp: process_batch_def)

lemma batch_size_nonneg: "0 \<le> batch_size b"
  by (simp add: batch_size_def split: sum.splits)

lemma after_call_count:
  "processed_count self \<le> processed_count (after_call self c)"
proof (cases c)
  case (Process_batch b)
  with process_batch_snd [of self b] batch_size_nonneg [of b] show ?thesis by auto
qed simp_all

lemma run_count: "processed_count self \<le> processed_count (run self calls)"
proof (induction calls arbitrary: self)
  case Nil
  then show ?case by (simp add: run_def)
next
  case (Cons c calls)
  from after_call_count [of self c] Cons [of "after_call self c"] show ?case
    by (simp add: run_def)
qed

lemma processed_count_laws:
  "processed_count (DataStream_init c sid) = 0
   \<and> processed_count (SensorStream_init sid) = 0
   \<and> processed_count (TransactionStream_init sid) = 0
   \<and> processed_count (EventStream_init sid) = 0
   \<and> processed_count self \<le> processed_count (run self calls)
   \<and> processed_count (after_call self (Filter_data data_batch criteria)) = processed_count self
   \<and> processed_count (after_call self Get_stats) = processed_count self
   \<and> (succeeded self (fst (process_batch self data_batch)) \<longrightarrow>
        processed_count (after_call self (Process_batch data_batch)) =
          processed_count self + batch_size data_batch)"
  using run_count [of self calls] process_batch_succeeded [of self data_batch]
  by (simp add: DataStream_init_def SensorStream_init_def TransactionStream_init_def
      EventStream_init_def)

text \<open>
  C3, at the input where the code departs from it. \<^verbatim>\<open>TransactionStream\<close> raises
  the count before it builds the result string, outside the \<^verbatim>\<open>try\<close>. On the
  batch \<^verbatim>\<open>[10 ** 4300]\<close> the sum is an int too long to be formatted: the call
  raises \<^verbatim>\<open>ValueError\<close>, so it did not succeed, and yet the count has grown by
  the batch size. After this one call the count is 1, and the batch sizes of the successful
  calls add up to 0.
\<close>

theorem count_grows_when_formatting_raises:
  "process_batch (TransactionStream_init ''TRANS_001'') (PList [PInt (10 ^ max_str_digits)]) =
     (Inl ValueError, (TransactionStream_init ''TRANS_001'')\<lparr>processed_count := 1\<rparr>)
   \<and> processed_count (run (TransactionStream_init ''TRANS_001'')
        [Process_batch (PList [PInt (10 ^ max_str_digits)])]) = 1
   \<and> credited (TransactionStream_init ''TRANS_001'')
        (Process_batch (PList [PInt (10 ^ max_str_digits)])) = 0"
proof -
  have pb: "process_batch (TransactionStream_init ''TRANS_001'')
      (PList [PInt (10 ^ max_str_digits)]) =
     (Inl ValueError, (TransactionStream_init ''TRANS_001'')\<lparr>processed_count := 1\<rparr>)"
    by (simp add: process_batch_def TransactionStream_process_batch_def py_sum_def py_add_def
        int_too_long_def TransactionStream_init_def DataStream_init_def)
  then show ?thesis by (simp add: run_def succeeded_def)
qed


section \<open>Properties of filter_data\<close>

text \<open>
  C5. For each of the three classes and every batch, \<^verbatim>\<open>filter_data\<close> called with
  no criteria (\<^verbatim>\<open>None\<close>) or with a criteria that is not one of the two names the
  class compares against returns the batch it was given.
\<close>

theorem filter_data_unrecognized:
  assumes "criteria \<notin> set (map Some (criteria_names (cls self)))"
  shows "filter_data self data_batch criteria = Inr data_batch"
  using assms
  by (cases "cls self")
    (auto simp: filter_data_def SensorStream_filter_data_def
      TransactionStream_filter_data_def EventStream_filter_data_def)

theorem filter_data_unrecognized_witness:
  "filter_data (SensorStream_init ''SENSOR_001'') (PList [PFloat (45 / 2), PInt 50]) None =
     Inr (PList [PFloat (45 / 2), PInt 50])
   \<and> filter_data (EventStream_init ''EVENT_001'') (PList [PInt 1, PStr ''error''])
        (Some ''warning'') = Inr (PList [PInt 1, PStr ''error''])
   \<and> filter_data (TransactionStream_init ''TRANS_001'') (PList [PInt 100, PInt (- 75)])
        (Some ''high'') = Inr (PList [PInt 100, PInt (- 75)])"
proof -
  have 1: "None \<notin> set (map Some (criteria_names (cls (SensorStream_init ''SENSOR_001''))))"
    by (simp add: SensorStream_init_def DataStream_init_def)
  have 2: "Some ''warning'' \<notin> set (map Some (criteria_names (cls (EventStream_init ''EVENT_001''))))"
    by (simp add: EventStream_init_def DataStream_init_def)
  have 3: "Some ''high'' \<notin> set (map Some (criteria_names (cls (TransactionStream_init ''TRANS_001''))))"
    by (simp add: TransactionStream_init_def DataStream_init_def)
  from filter_data_unrecognized [OF 1] filter_data_unrecognized [OF 2]
    filter_data_unrecognized [OF 3]
  show ?thesis by simp
qed

text \<open>
  On a batch of numbers the conditions \<^verbatim>\<open>data > 30\<close> and
  \<^verbatim>\<open>data <= 30\<close> never raise, so the comprehension is a plain filter.
\<close>

lemma filter_comp_numbers:
  "list_all is_number xs \<Longrightarrow>
     filter_comp (\<lambda>data. py_cmp_int rel data k) xs =
       Inr (filter (\<lambda>v. rel (number_of v) (of_int k)) xs)"
proof (induction xs)
  case Nil
  then show ?case by simp
next
  case (Cons x xs)
  then obtain n where "as_num x = Some n" by (auto simp: is_number_def)
  with Cons show ?case by (simp add: py_cmp_int_def number_of_def)
qed

text \<open>
  C6. For every batch of numbers, \<^verbatim>\<open>SensorStream.filter_data\<close> with
  \<^verbatim>\<open>"high"\<close> returns the values above 30 and with \<^verbatim>\<open>"standard"\<close> the
  values of at most 30, each in the order of the batch.
\<close>

theorem sensor_filter_threshold:
  assumes "list_all is_number xs"
  shows "SensorStream_filter_data self (PList xs) (Some ''high'') =
           Inr (PList (filter (\<lambda>v. 30 < number_of v) xs))
       \<and> SensorStream_filter_data self (PList xs) (Some ''standard'') =
           Inr (PList (filter (\<lambda>v. number_of v \<le> 30) xs))"
  using filter_comp_numbers [OF assms, of "(>)" 30] filter_comp_numbers [OF assms, of "(\<le>)" 30]
  by (simp add: SensorStream_filter_data_def list_comp_def)

text \<open>
  The batch \<^verbatim>\<open>[22.5, 50, 21.8]\<close> of the demonstration, the floats by the exact
  values of their doubles: \<^verbatim>\<open>"high"\<close> keeps \<^verbatim>\<open>[50]\<close>.
\<close>

theorem sensor_filter_threshold_witness:
  "SensorStream_filter_data (SensorStream_init ''SENSOR_001'')
     (PList [PFloat (45 / 2), PInt 50, PFloat (6136154492292301 / 281474976710656)])
     (Some ''high'') = Inr (PList [PInt 50])
   \<and> SensorStream_filter_data (SensorStream_init ''SENSOR_001'')
     (PList [PFloat (45 / 2), PInt 50, PFloat (6136154492292301 / 281474976710656)])
     (Some ''standard'') =
       Inr (PList [PFloat (45 / 2), PFloat (6136154492292301 / 281474976710656)])"
proof -
  have n: "list_all is_number
     [PFloat (45 / 2), PInt 50, PFloat (6136154492292301 / 281474976710656)]"
    by (simp add: is_number_def)
  from sensor_filter_threshold [OF n, of "SensorStream_init ''SENSOR_001''"]
  show ?thesis by (simp add: number_of_def)
qed

text \<open>
  C9. \<^verbatim>\<open>filter_data\<close> with a criteria its class knows is not total: on the
  batch \<^verbatim>\<open>["error", 404]\<close> the event filters \<^verbatim>\<open>"error"\<close> and
  \<^verbatim>\<open>"info"\<close> raise \<^verbatim>\<open>TypeError\<close> at the int, and on
  \<^verbatim>\<open>[50, "n/a"]\<close> the sensor filter \<^verbatim>\<open>"high"\<close> raises it at the str.
  \<^verbatim>\<open>process_batch\<close> of the same classes returns a string on the same batches.
\<close>

theorem filter_data_raises_where_process_batch_does_not:
  "EventStream_filter_data self (PList [PStr ''error'', PInt 404]) (Some ''error'') =
     Inl TypeError
   \<and> EventStream_filter_data self (PList [PStr ''error'', PInt 404]) (Some ''info'') =
     Inl TypeError
   \<and> SensorStream_filter_data self (PList [PInt 50, PStr ''n/a'']) (Some ''high'') =
     Inl TypeError
   \<and> fst (EventStream_process_batch self (PList [PStr ''error'', PInt 404])) =
     Inr [Lit ''['', Lit (stream_id self), Lit ''] '', Fmt (PInt 2),
          Lit '' events processed, '', Fmt (PInt 1), Lit '' error(s)'']
   \<and> fst (SensorStream_process_batch self (PList [PInt 50, PStr ''n/a''])) =
     Inr [Lit ''['', Lit (stream_id self), Lit ''] Invalid sensor data'']"
  by (simp add: EventStream_filter_data_def SensorStream_filter_data_def list_comp_def
      py_cmp_int_def EventStream_process_batch_def SensorStream_process_batch_def py_sum_def
      py_add_def)


section \<open>Properties of the event count and of StreamProcessor\<close>

text \<open>
  The substring test of the model is the contiguous-sublist relation of the library.
\<close>

lemma str_contains_sublist: "str_contains sub t = sublist sub t"
  by (induction t) (simp_all add: sublist_Cons_right)

lemma is_error_event_iff: "is_error_event v = (\<exists>t. v = PStr t \<and> sublist ''error'' t)"
  by (cases v) (simp_all add: str_contains_sublist)

text \<open>
  C8. For every list batch \<^verbatim>\<open>EventStream.process_batch\<close> reports the length of the
  batch as the total, and as the error count the number of items that are strs with
  \<^verbatim>\<open>"error"\<close> as a substring; it counts the whole batch.
\<close>

theorem event_batch_counts:
  "EventStream_process_batch self (PList xs) =
     (Inr [Lit ''['', Lit (stream_id self), Lit ''] '', Fmt (PInt (int (length xs))),
           Lit '' events processed, '',
           Fmt (PInt (int (length (filter (\<lambda>v. \<exists>t. v = PStr t \<and> sublist ''error'' t) xs)))),
           Lit '' error(s)''],
      self\<lparr>processed_count := processed_count self + int (length xs)\<rparr>)"
proof -
  have "filter is_error_event xs = filter (\<lambda>v. \<exists>t. v = PStr t \<and> sublist ''error'' t) xs"
    by (rule filter_cong) (simp_all add: is_error_event_iff)
  then show ?thesis by (simp add: event_outcome)
qed

text \<open>
  The batch \<^verbatim>\<open>["login", "error", "logout"]\<close> of the demonstration: 1 error of 3
  events.
\<close>

theorem event_batch_counts_witness:
  "EventStream_process_batch (EventStream_init ''EVENT_001'')
     (PList [PStr ''login'', PStr ''error'', PStr ''logout'']) =
     (Inr [Lit ''['', Lit ''EVENT_001'', Lit ''] '', Fmt (PInt 3),
           Lit '' events processed, '', Fmt (PInt 1), Lit '' error(s)''],
      (EventStream_init ''EVENT_001'')\<lparr>processed_count := 3\<rparr>)"
proof -
  have "length (filter (\<lambda>v. \<exists>t. v = PStr t \<and> sublist ''error'' t)
          [PStr ''login'', PStr ''error'', PStr ''logout'']) = 1"
    by (simp add: sublist_Cons_right)
  with event_batch_counts [of "EventStream_init ''EVENT_001''"
      "[PStr ''login'', PStr ''error'', PStr ''logout'']"]
  show ?thesis by (simp add: EventStream_init_def DataStream_init_def)
qed

lemma process_batch_stream_id: "stream_id (snd (process_batch self b)) = stream_id self"
  using process_batch_snd [of self b] by auto

text \<open>
  C7. \<^verbatim>\<open>process_streams\<close> calls \<^verbatim>\<open>process_batch\<close> on every stream of the
  list, in order, with the batch the map holds under the stream's identifier or the empty
  list when it holds none. The line printed for a stream is the string its call returned,
  or the error line when its call raised; either way the walk goes on to the next stream.
\<close>

text \<open>
  C7. \<^verbatim>\<open>process_streams\<close> calls \<^verbatim>\<open>process_batch\<close> on every stream of the
  list, in order, with the batch the map holds under the stream's identifier or the empty
  list when it holds none. The line printed for a stream is the string its call returned,
  or the error line when its call raised; either way the walk goes on to the next stream.
\<close>

theorem process_streams_all:
  "process_streams streams data_map =
     (map (\<lambda>s. snd (process_batch s
                  (case data_map (stream_id s) of None \<Rightarrow> PList [] | Some b \<Rightarrow> b))) streams,
      map (\<lambda>s. case fst (process_batch s
                  (case data_map (stream_id s) of None \<Rightarrow> PList [] | Some b \<Rightarrow> b)) of
                 Inr result \<Rightarrow> result
               | Inl e \<Rightarrow> [Lit ''Processing error in '', Lit (stream_id s), Lit '': '',
                           FmtErr e]) streams)"
proof (induction streams)
  case Nil
  then show ?case by simp
next
  case (Cons s streams)
  obtain outcome s' where pb: "process_batch s
      (case data_map (stream_id s) of None \<Rightarrow> PList [] | Some b \<Rightarrow> b) = (outcome, s')"
    by (cases "process_batch s
      (case data_map (stream_id s) of None \<Rightarrow> PList [] | Some b \<Rightarrow> b)") simp
  with process_batch_stream_id [of s
      "case data_map (stream_id s) of None \<Rightarrow> PList [] | Some b \<Rightarrow> b"]
  have "stream_id s' = stream_id s" by simp
  with Cons pb show ?case by (simp split: sum.splits)
qed

text \<open>
  Three streams: the sensor's batch holds an int beyond the float range, so its call
  raises \<^verbatim>\<open>OverflowError\<close>; the transaction stream has no entry in the map; the
  event stream still gets its batch processed and counted.
\<close>

theorem process_streams_all_witness:
  "process_streams
     [SensorStream_init ''SENSOR_001'', TransactionStream_init ''TRANS_001'',
      EventStream_init ''EVENT_001'']
     [''SENSOR_001'' \<mapsto> PList [PInt (2 ^ 1024)],
      ''EVENT_001'' \<mapsto> PList [PStr ''login'', PStr ''error'', PStr ''logout'']] =
   ([SensorStream_init ''SENSOR_001'', TransactionStream_init ''TRANS_001'',
     (EventStream_init ''EVENT_001'')\<lparr>processed_count := 3\<rparr>],
    [[Lit ''Processing error in '', Lit ''SENSOR_001'', Lit '': '', FmtErr OverflowError],
     [Lit ''['', Lit ''TRANS_001'', Lit ''] '', Fmt (PInt 0),
      Lit '' operations processed, net flow: '', Fmt (PInt 0)],
     [Lit ''['', Lit ''EVENT_001'', Lit ''] '', Fmt (PInt 3),
      Lit '' events processed, '', Fmt (PInt 1), Lit '' error(s)'']])"
proof -
  let ?m = "[''SENSOR_001'' \<mapsto> PList [PInt (2 ^ 1024)],
      ''EVENT_001'' \<mapsto> PList [PStr ''login'', PStr ''error'', PStr ''logout'']]"
  have s: "process_batch (SensorStream_init ''SENSOR_001'') (PList [PInt (2 ^ 1024)]) =
      (Inl OverflowError, SensorStream_init ''SENSOR_001'')"
    by (simp add: process_batch_def SensorStream_process_batch_def py_sum_def py_add_def
        float_overflows_def SensorStream_init_def DataStream_init_def)
  have t: "process_batch (TransactionStream_init ''TRANS_001'') (PList []) =
      (Inr [Lit ''['', Lit ''TRANS_001'', Lit ''] '', Fmt (PInt 0),
            Lit '' operations processed, net flow: '', Fmt (PInt 0)],
       TransactionStream_init ''TRANS_001'')"
    by (simp add: process_batch_def TransactionStream_process_batch_def py_sum_def
        zero_formats TransactionStream_init_def DataStream_init_def)
  have e: "process_batch (EventStream_init ''EVENT_001'')
        (PList [PStr ''login'', PStr ''error'', PStr ''logout'']) =
      (Inr [Lit ''['', Lit ''EVENT_001'', Lit ''] '', Fmt (PInt 3),
            Lit '' events processed, '', Fmt (PInt 1), Lit '' error(s)''],
       (EventStream_init ''EVENT_001'')\<lparr>processed_count := 3\<rparr>)"
    by (simp add: process_batch_def EventStream_process_batch_def
        EventStream_init_def DataStream_init_def)
  have ids: "stream_id (SensorStream_init ''SENSOR_001'') = ''SENSOR_001''"
    "stream_id (TransactionStream_init ''TRANS_001'') = ''TRANS_001''"
    "stream_id (EventStream_init ''EVENT_001'') = ''EVENT_001''"
    by (simp_all add: SensorStream_init_def TransactionStream_init_def EventStream_init_def
        DataStream_init_def)
  have m: "?m ''SENSOR_001'' = Some (PList [PInt (2 ^ 1024)])"
    "?m ''TRANS_001'' = None"
    "?m ''EVENT_001'' = Some (PList [PStr ''login'', PStr ''error'', PStr ''logout''])"
    by simp_all
  show ?thesis
    by (simp only: process_streams_all list.map ids m option.case s t e fst_conv snd_conv
        sum.case)
qed


section \<open>The validators\<close>

text \<open>
  What each \<^verbatim>\<open>validate\<close> returns and prints, for every input. None raises: the
  only exceptions the bodies can raise are the two the handlers catch. The numeric
  validator accepts exactly the iterables whose items all have \<^verbatim>\<open>is_integer\<close>,
  the text validator exactly the strs; both print a diagnostic with every
  \<^verbatim>\<open>False\<close>. The log validator prints one for an input that is not a str, and
  none for a str without a marker.
\<close>

lemma py_iter_error: "py_iter data = Inl e \<Longrightarrow> e = TypeError"
  by (cases data) auto

lemma each_is_integer_cases:
  "each_is_integer xs = (if list_all is_number xs then Inr () else Inl AttributeError)"
proof (induction xs)
  case Nil
  then show ?case by simp
next
  case (Cons x xs)
  then show ?case by (cases x) (simp_all add: is_number_def)
qed

lemma numeric_validate_cases:
  "NumericProcessor_validate data =
     (case py_iter data of
        Inl e \<Rightarrow> Inr (False, [''Not list of numbers''])
      | Inr items \<Rightarrow>
          if list_all is_number items
          then Inr (True, [''Validation: Numeric data verified''])
          else Inr (False, [''Not list of numbers'']))"
proof (cases "py_iter data")
  case (Inl e)
  with py_iter_error [OF Inl] show ?thesis by (simp add: NumericProcessor_validate_def)
next
  case (Inr items)
  then show ?thesis by (simp add: NumericProcessor_validate_def each_is_integer_cases)
qed

lemma text_validate_cases:
  "TextProcessor_validate data =
     (case data of
        PStr t \<Rightarrow> Inr (True, [''Validation: Text data verified''])
      | _ \<Rightarrow> Inr (False, [''Not a string'']))"
  by (cases data) (simp_all add: TextProcessor_validate_def)

lemma str_find_found: "(- 1 < str_find t sub) = str_contains sub t"
  by (induction t) (auto simp: Let_def)

lemma log_validate_cases:
  "LogProcessor_validate data =
     (case data of
        PStr t \<Rightarrow>
          if str_contains ''ERROR'' t \<or> str_contains ''INFO'' t
          then Inr (True, [''Validation: Log entry verified''])
          else Inr (False, [])
      | _ \<Rightarrow> Inr (False, [''Not a log entry'']))"
  by (cases data) (auto simp: LogProcessor_validate_def str_find_found)

text \<open>
  C4, at the input where the code departs from it. A str with neither marker is not a log
  entry: \<^verbatim>\<open>LogProcessor.validate\<close> returns \<^verbatim>\<open>False\<close> for it but prints
  no diagnostic, while for the int 45 it prints \<^verbatim>\<open>Not a log entry\<close>.
\<close>

theorem log_validate_silent_rejection:
  "LogProcessor_validate (PStr ''hello'') = Inr (False, [])
   \<and> LogProcessor_validate (PInt 45) = Inr (False, [''Not a log entry''])"
  by (simp add: LogProcessor_validate_def)

end
